theory Spec2Isabelle
  imports Complex_Main
begin

section \<open>Strings\<close>

text \<open>
  A Python \<open>str\<close> is modelled as a \<open>string\<close>: one \<open>char\<close> stands for one character
  of the Python string, so the model covers the strings whose code points are below 256.
  Every test the program makes on a character (the sentinel \<open>B\<close>, the colon, the line
  feed, the markers, white space, digits) is a test on a code point in that range.
\<close>

fun startswith :: "string \<Rightarrow> string \<Rightarrow> bool" where
  "startswith s [] = True"
| "startswith [] (p # ps) = False"
| "startswith (c # cs) (p # ps) = (c = p \<and> startswith cs ps)"

text \<open>\<open>str.isspace\<close> on one character: the white space of Unicode below 256.\<close>

definition py_isspace :: "char \<Rightarrow> bool" where
  "py_isspace c = (let n = (of_char c :: nat) in
     (9 \<le> n \<and> n \<le> 13) \<or> (28 \<le> n \<and> n \<le> 32) \<or> n = 133 \<or> n = 160)"

definition strip :: "string \<Rightarrow> string" where
  "strip s = rev (dropWhile py_isspace (rev (dropWhile py_isspace s)))"

text \<open>
  \<open>str.lower\<close> on one character: the capital letters \<open>A\<close> to \<open>Z\<close> and the capital
  letters of the range 192 to 222 (the multiplication sign 215 apart) move up by 32.
\<close>

definition py_lower_char :: "char \<Rightarrow> char" where
  "py_lower_char c = (let n = (of_char c :: nat) in
     if (65 \<le> n \<and> n \<le> 90) \<or> (192 \<le> n \<and> n \<le> 222 \<and> n \<noteq> 215)
     then char_of (n + 32) else c)"

definition lower :: "string \<Rightarrow> string" where
  "lower s = map py_lower_char s"

text \<open>\<open>s.replace('_', ' ')\<close>.\<close>

definition replace_underscore :: "string \<Rightarrow> string" where
  "replace_underscore s = map (\<lambda>c. if c = CHR ''_'' then CHR '' '' else c) s"

text \<open>
  \<open>str.partition\<close> at the first occurrence of a character, and \<open>s.split(c, n)\<close>:
  at most \<open>n\<close> cuts, the rest kept whole as the last part.
\<close>

fun partition_at :: "char \<Rightarrow> string \<Rightarrow> (string \<times> string) option" where
  "partition_at c [] = None"
| "partition_at c (x # xs) =
     (if x = c then Some ([], xs)
      else (case partition_at c xs of None \<Rightarrow> None | Some (a, b) \<Rightarrow> Some (x # a, b)))"

fun split_max :: "char \<Rightarrow> nat \<Rightarrow> string \<Rightarrow> string list" where
  "split_max c 0 s = [s]"
| "split_max c (Suc n) s =
     (case partition_at c s of None \<Rightarrow> [s] | Some (a, b) \<Rightarrow> a # split_max c n b)"

text \<open>\<open>s.split(c)\<close>: a string has at most \<open>length s\<close> occurrences of \<open>c\<close>.\<close>

definition split_all :: "char \<Rightarrow> string \<Rightarrow> string list" where
  "split_all c s = split_max c (length s) s"

text \<open>
  \<open>str.isdigit\<close> holds of a non-empty string of digit characters; below 256 these are
  \<open>0\<close> to \<open>9\<close> and the superscripts 178, 179 and 185. \<open>int\<close> reads the decimal digits
  \<open>0\<close> to \<open>9\<close> only, and raises \<open>ValueError\<close> on a superscript.
\<close>

definition is_decimal_char :: "char \<Rightarrow> bool" where
  "is_decimal_char c = (let n = (of_char c :: nat) in 48 \<le> n \<and> n \<le> 57)"

definition is_digit_char :: "char \<Rightarrow> bool" where
  "is_digit_char c = (let n = (of_char c :: nat) in
     (48 \<le> n \<and> n \<le> 57) \<or> n = 178 \<or> n = 179 \<or> n = 185)"

definition isdigit :: "string \<Rightarrow> bool" where
  "isdigit s = (s \<noteq> [] \<and> list_all is_digit_char s)"

fun decimal_value :: "int \<Rightarrow> string \<Rightarrow> int" where
  "decimal_value acc [] = acc"
| "decimal_value acc (c # cs) = decimal_value (10 * acc + (int (of_char c) - 48)) cs"

section \<open>Paths\<close>

text \<open>
  A \<open>pathlib.Path\<close> is the list of its components; its \<open>name\<close> is the last one, and
  the empty string when there is none. \<open>suffix\<close>, \<open>stem\<close> and \<open>with_suffix\<close> follow
  \<open>pathlib\<close>: the suffix starts at the last dot of the name, unless that dot is the
  first or the last character.
\<close>

type_synonym path = "string list"

datatype click_error = VoucherNotFound path | KeyIvNotFound

datatype exn =
    ClickException click_error
  | CalledProcessError int string
  | ValueError
  | TypeError
  | AttributeError
  | ZeroDivisionError
  | JSONDecodeError
  | OSError
  | Abort

definition path_name :: "path \<Rightarrow> string" where
  "path_name p = (if p = [] then [] else last p)"

definition path_parent :: "path \<Rightarrow> path" where
  "path_parent p = butlast p"

definition joinpath :: "path \<Rightarrow> string \<Rightarrow> path" where
  "joinpath d n = d @ [n]"

fun path_str :: "path \<Rightarrow> string" where
  "path_str [] = ''.''"
| "path_str [c] = c"
| "path_str (c # cs) = c @ ''/'' @ path_str cs"

fun rfind :: "string \<Rightarrow> char \<Rightarrow> nat option" where
  "rfind [] c = None"
| "rfind (x # xs) c =
     (case rfind xs c of Some i \<Rightarrow> Some (Suc i) | None \<Rightarrow> if x = c then Some 0 else None)"

definition path_suffix :: "path \<Rightarrow> string" where
  "path_suffix p = (let nm = path_name p in
     case rfind nm CHR ''.'' of
       None \<Rightarrow> []
     | Some i \<Rightarrow> if 0 < i \<and> Suc i < length nm then drop i nm else [])"

definition path_stem :: "path \<Rightarrow> string" where
  "path_stem p = (let nm = path_name p in
     case rfind nm CHR ''.'' of
       None \<Rightarrow> nm
     | Some i \<Rightarrow> if 0 < i \<and> Suc i < length nm then take i nm else nm)"

definition with_suffix :: "path \<Rightarrow> string \<Rightarrow> exn + path" where
  "with_suffix p suffix =
     (if CHR ''/'' \<in> set suffix \<or> (suffix \<noteq> [] \<and> \<not> startswith suffix ''.'') \<or> suffix = ''.''
      then Inl ValueError
      else if path_name p = [] then Inl ValueError
      else (let nm = path_name p; old = path_suffix p
            in Inr (butlast p @ [take (length nm - length old) nm @ suffix])))"

section \<open>The world outside the program\<close>

text \<open>
  The file system maps a path to what the program can observe of the file there: its size
  and what \<open>read_text\<close> gives. \<open>unlink\<close> removes an entry and raises when there is none.
\<close>

record entry =
  st_size :: nat
  read_text :: "exn + string"

type_synonym fs = "path \<Rightarrow> entry option"

definition exists_in :: "fs \<Rightarrow> path \<Rightarrow> bool" where
  "exists_in f p = (f p \<noteq> None)"

definition unlink :: "path \<Rightarrow> fs \<Rightarrow> exn + fs" where
  "unlink p f = (if f p = None then Inl OSError else Inr (f(p := None)))"

text \<open>The values \<open>json.loads\<close> produces; an object is the association list of its \<open>dict\<close>.\<close>

datatype json =
    JNull
  | JBool bool
  | JInt int
  | JFloat real
  | JStr string
  | JArr "json list"
  | JObj "(string \<times> json) list"

text \<open>What \<open>subprocess.run\<close> gives: an exception, or exit code, standard output and error.\<close>

datatype proc_result = Raised exn | Exited int string string

text \<open>
  The external collaborators are parameters: \<open>run\<close> is the effect of an external command
  on the file system together with its result, \<open>json_loads\<close> is \<open>json.loads\<close>,
  \<open>glob\<close> is \<open>Path.glob\<close> on a directory and a pattern, \<open>mkdir\<close> is
  \<open>Path.mkdir(parents=True, exist_ok=True)\<close>, \<open>rich_installed\<close> tells whether the
  import of the table library succeeds.
\<close>

record env =
  run :: "string list \<Rightarrow> fs \<Rightarrow> proc_result \<times> fs"
  json_loads :: "string \<Rightarrow> exn + json"
  glob :: "fs \<Rightarrow> path \<Rightarrow> string \<Rightarrow> path list"
  mkdir :: "path \<Rightarrow> fs \<Rightarrow> exn + fs"
  rich_installed :: bool

text \<open>What the program tells the operator, one constructor for each message of the source.\<close>

record book =
  book_asin :: string
  book_title :: string
  book_authors :: "string list"

record row =
  row_number :: int
  row_title :: string
  row_authors :: string
  row_asin :: string

datatype msg =
    InvalidAsin string
  | Downloading string
  | ErrorDownload string
  | NoAaxcFound
  | FoundAaxc string
  | CredentialsExtracted
  | ErrorExn exn
  | Decrypting
  | DecryptFailed
  | Verifying
  | VerificationFailed
  | KeepingFiles
  | Completed
  | DecryptedAudiobook string
  | FileSize nat
  | FFmpegError string
  | EmptyOutput
  | DecryptionError exn
  | BaseNameWarning string
  | CleaningUp
  | Removed string
  | CouldNotRemove string exn
  | ParseWarning string
  | RichMissing
  | Fetching
  | ListFailed string
  | NoBooks
  | ConfirmSort string
  | ConfirmInvalid
  | SortingBy string
  | NoMoreBooks
  | ShowTable int int "row list"
  | BrowsePrompt
  | Selected string string
  | InvalidBookNumber
  | AlreadyLastPage
  | AlreadyFirstPage
  | Exiting
  | InvalidInput

datatype event = Echo msg | Launch "string list"

text \<open>
  The state the program runs in: the files, what it has printed and launched so far, and
  the lines the operator will type.
\<close>

record world =
  files :: fs
  trace :: "event list"
  stdin :: "string list"

definition echo :: "msg \<Rightarrow> world \<Rightarrow> world" where
  "echo m w = w\<lparr>trace := trace w @ [Echo m]\<rparr>"

text \<open>How a run of the program ends: it returns, it calls \<open>sys.exit\<close>, or an exception escapes.\<close>

datatype outcome = Finished | SysExit int | Uncaught exn

section \<open>Identifier Validator\<close>

definition validate_asin :: "string \<Rightarrow> bool" where
  "validate_asin asin = (length asin = 10 \<and> startswith asin ''B'')"

section \<open>External Process Invoker\<close>

text \<open>
  \<open>subprocess.run\<close> on an argument list: it raises \<open>TypeError\<close> when an argument is not a
  string, and launches the command otherwise.
\<close>

fun json_str :: "json \<Rightarrow> string option" where
  "json_str (JStr s) = Some s"
| "json_str _ = None"

fun all_str :: "json list \<Rightarrow> string list option" where
  "all_str [] = Some []"
| "all_str (a # as) =
     (case json_str a of None \<Rightarrow> None
      | Some s \<Rightarrow> (case all_str as of None \<Rightarrow> None | Some ss \<Rightarrow> Some (s # ss)))"

definition subprocess_run :: "env \<Rightarrow> json list \<Rightarrow> world \<Rightarrow> proc_result \<times> world" where
  "subprocess_run e args w =
     (case all_str args of
        None \<Rightarrow> (Raised TypeError, w)
      | Some cmd \<Rightarrow>
          (case run e cmd (files w) of
             (r, f) \<Rightarrow> (r, w\<lparr>files := f, trace := trace w @ [Launch cmd]\<rparr>)))"

text \<open>\<open>run_command\<close>: \<open>check=True\<close> turns a non-zero exit into \<open>CalledProcessError\<close>.\<close>

definition run_command :: "env \<Rightarrow> string list \<Rightarrow> world \<Rightarrow> (exn + string \<times> string) \<times> world" where
  "run_command e cmd w =
     (case subprocess_run e (map JStr cmd) w of
        (Raised x, w1) \<Rightarrow> (Inl x, w1)
      | (Exited rc out err, w1) \<Rightarrow>
          (if rc \<noteq> 0 then (Inl (CalledProcessError rc err), w1) else (Inr (out, err), w1)))"

definition profile_args :: "string option \<Rightarrow> string list" where
  "profile_args profile =
     (case profile of None \<Rightarrow> [] | Some p \<Rightarrow> if p = [] then [] else [''--profile'', p])"

definition download_audiobook ::
  "env \<Rightarrow> string \<Rightarrow> path \<Rightarrow> string option \<Rightarrow> world \<Rightarrow> (exn + bool \<times> string option) \<times> world" where
  "download_audiobook e asin output_dir profile w =
     (let cmd = [''audible''] @ profile_args profile @
                [''download'', ''--asin'', asin, ''--output-dir'', path_str output_dir,
                 ''--aaxc'', ''--quality'', ''best'', ''--resolve-podcasts'',
                 ''--chapter'', ''--cover'', ''--no-confirm'']
      in case run_command e cmd w of
           (Inr _, w1) \<Rightarrow> (Inr (True, None), w1)
         | (Inl (CalledProcessError rc err), w1) \<Rightarrow>
             (Inr (False, Some (''Download failed:'' @ [CHR 0x0A] @ err)), w1)
         | (Inl x, w1) \<Rightarrow> (Inl x, w1))"

section \<open>Credential Extractor\<close>

text \<open>\<open>d.get(k, default)\<close>: only a \<open>dict\<close> has the method.\<close>

definition py_get :: "json \<Rightarrow> string \<Rightarrow> json \<Rightarrow> exn + json" where
  "py_get d k dflt =
     (case d of
        JObj kvs \<Rightarrow> Inr (case map_of kvs k of None \<Rightarrow> dflt | Some v \<Rightarrow> v)
      | _ \<Rightarrow> Inl AttributeError)"

fun truthy :: "json \<Rightarrow> bool" where
  "truthy JNull = False"
| "truthy (JBool b) = b"
| "truthy (JInt i) = (i \<noteq> 0)"
| "truthy (JFloat x) = (x \<noteq> 0)"
| "truthy (JStr s) = (s \<noteq> [])"
| "truthy (JArr xs) = (xs \<noteq> [])"
| "truthy (JObj kvs) = (kvs \<noteq> [])"

definition get_aaxc_credentials :: "env \<Rightarrow> fs \<Rightarrow> path \<Rightarrow> exn + json \<times> json" where
  "get_aaxc_credentials e f voucher_file =
     (case f voucher_file of
        None \<Rightarrow> Inl (ClickException (VoucherNotFound voucher_file))
      | Some ent \<Rightarrow>
     (case read_text ent of Inl x \<Rightarrow> Inl x | Inr txt \<Rightarrow>
     (case json_loads e txt of Inl x \<Rightarrow> Inl x | Inr voucher_data \<Rightarrow>
     (case py_get voucher_data ''content_license'' (JObj []) of Inl x \<Rightarrow> Inl x | Inr cl \<Rightarrow>
     (case py_get cl ''license_response'' (JObj []) of Inl x \<Rightarrow> Inl x | Inr content_license \<Rightarrow>
     (case py_get content_license ''key'' JNull of Inl x \<Rightarrow> Inl x | Inr key \<Rightarrow>
     (case py_get content_license ''iv'' JNull of Inl x \<Rightarrow> Inl x | Inr iv \<Rightarrow>
        if \<not> truthy key \<or> \<not> truthy iv then Inl (ClickException KeyIvNotFound)
        else Inr (key, iv))))))))"

section \<open>Decryption Invoker and Output Verifier\<close>

definition ffmpeg_decrypt_cmd :: "json \<Rightarrow> json \<Rightarrow> path \<Rightarrow> path \<Rightarrow> json list" where
  "ffmpeg_decrypt_cmd key iv input_file output_file =
     [JStr ''ffmpeg'', JStr ''-y'', JStr ''-audible_key'', key, JStr ''-audible_iv'', iv,
      JStr ''-i'', JStr (path_str input_file), JStr ''-map'', JStr ''0:a'',
      JStr ''-map'', JStr ''0:t?'', JStr ''-c'', JStr ''copy'', JStr ''-f'', JStr ''mp4'',
      JStr (path_str output_file)]"

definition decrypt_audiobook ::
  "env \<Rightarrow> path \<Rightarrow> path \<Rightarrow> json \<times> json \<Rightarrow> world \<Rightarrow> (exn + bool \<times> path option) \<times> world" where
  "decrypt_audiobook e input_file output_dir credentials w =
     (case credentials of (key, iv) \<Rightarrow>
      case with_suffix input_file ''.m4b'' of
        Inl x \<Rightarrow> (Inl x, w)
      | Inr m4b \<Rightarrow>
          (let output_file = joinpath output_dir (path_name m4b)
           in case subprocess_run e (ffmpeg_decrypt_cmd key iv input_file output_file) w of
                (Raised x, w1) \<Rightarrow> (Inr (False, None), echo (DecryptionError x) w1)
              | (Exited rc out err, w1) \<Rightarrow>
                  if rc \<noteq> 0 then (Inr (False, None), echo (FFmpegError err) w1)
                  else (case files w1 output_file of
                          None \<Rightarrow> (Inr (False, None), echo EmptyOutput w1)
                        | Some ent \<Rightarrow>
                            if st_size ent = 0 then (Inr (False, None), echo EmptyOutput w1)
                            else (Inr (True, Some output_file), w1))))"

definition verify_decrypted_file :: "env \<Rightarrow> path \<Rightarrow> world \<Rightarrow> bool \<times> world" where
  "verify_decrypted_file e file_path w =
     (case subprocess_run e
             (map JStr [''ffmpeg'', ''-v'', ''error'', ''-i'', path_str file_path, ''-f'', ''null'', ''-'']) w of
        (Raised x, w1) \<Rightarrow> (False, w1)
      | (Exited rc out err, w1) \<Rightarrow> (rc = 0, w1))"

section \<open>Artifact Locator\<close>

text \<open>\<open>next(iter(directory.glob("*.aaxc")), None)\<close>.\<close>

definition find_aaxc_file :: "env \<Rightarrow> fs \<Rightarrow> path \<Rightarrow> path option" where
  "find_aaxc_file e f directory =
     (case glob e f directory ''*.aaxc'' of [] \<Rightarrow> None | p # ps \<Rightarrow> Some p)"

text \<open>
  \<open>re.search(r'(-AAX.*|-LC.*)$', stem)\<close>, as the start of the match. The search tries
  each position from the left. At a position, an alternative matches when its marker is
  there and \<open>.*$\<close> can consume what follows: \<open>.\<close> matches every character but the line
  feed, and \<open>$\<close> matches at the end of the string and before a line feed that ends the
  string; so what follows the marker has no line feed, its last character apart.
\<close>

definition rest_matches :: "string \<Rightarrow> bool" where
  "rest_matches r = (CHR 0x0A \<notin> set (butlast r))"

definition marker_at :: "string \<Rightarrow> bool" where
  "marker_at s = ((startswith s ''-AAX'' \<and> rest_matches (drop 4 s))
                  \<or> (startswith s ''-LC'' \<and> rest_matches (drop 3 s)))"

fun re_search :: "string \<Rightarrow> nat option" where
  "re_search [] = None"
| "re_search (c # cs) =
     (if marker_at (c # cs) then Some 0
      else (case re_search cs of None \<Rightarrow> None | Some i \<Rightarrow> Some (Suc i)))"

definition base_name :: "string \<Rightarrow> string" where
  "base_name stem = (case re_search stem of None \<Rightarrow> stem | Some i \<Rightarrow> take i stem)"

definition get_related_files :: "env \<Rightarrow> path \<Rightarrow> world \<Rightarrow> (exn + path list) \<times> world" where
  "get_related_files e aaxc_file w =
     (let directory = path_parent aaxc_file;
          stem = path_stem aaxc_file;
          w1 = (case re_search stem of None \<Rightarrow> echo (BaseNameWarning stem) w | Some i \<Rightarrow> w)
      in case with_suffix aaxc_file ''.voucher'' of
           Inl x \<Rightarrow> (Inl x, w1)
         | Inr voucher \<Rightarrow>
             (let related =
                    [aaxc_file, voucher, joinpath directory (base_name stem @ ''-chapters.json'')]
                    @ glob e (files w1) directory (base_name stem @ ''*.[jJ][pP][gG]'')
                    @ glob e (files w1) directory (base_name stem @ ''*.[jJ][pP][eE][gG]'')
              in (Inr (filter (exists_in (files w1)) related), w1)))"

section \<open>Cleanup\<close>

fun cleanup_loop :: "path list \<Rightarrow> world \<Rightarrow> world" where
  "cleanup_loop [] w = w"
| "cleanup_loop (file # rest) w =
     cleanup_loop rest
       (case unlink file (files w) of
          Inr f \<Rightarrow> echo (Removed (path_name file)) (w\<lparr>files := f\<rparr>)
        | Inl x \<Rightarrow> echo (CouldNotRemove (path_name file) x) w)"

definition cleanup_files :: "path list \<Rightarrow> world \<Rightarrow> world" where
  "cleanup_files files_to_remove w = cleanup_loop files_to_remove (echo CleaningUp w)"

section \<open>Listing parser\<close>

text \<open>
  The body of the loop of \<open>parse_library_list_output\<close> on one non-empty line: the
  unpacking into three names raises \<open>ValueError\<close>, caught with a warning, unless
  \<open>line.split(':', 2)\<close> has three parts.
\<close>

definition parse_line :: "string \<Rightarrow> book option" where
  "parse_line line =
     (case map strip (split_max CHR '':'' 2 line) of
        [asin, author, title] \<Rightarrow>
          Some \<lparr>book_asin = asin, book_title = title, book_authors = [author]\<rparr>
      | _ \<Rightarrow> None)"

fun parse_lines :: "string list \<Rightarrow> book list \<Rightarrow> world \<Rightarrow> book list \<times> world" where
  "parse_lines [] library_data w = (library_data, w)"
| "parse_lines (line # rest) library_data w =
     (if line = [] then parse_lines rest library_data w
      else (case parse_line line of
              Some b \<Rightarrow> parse_lines rest (library_data @ [b]) w
            | None \<Rightarrow> parse_lines rest library_data (echo (ParseWarning line) w)))"

definition parse_library_list_output :: "string \<Rightarrow> world \<Rightarrow> book list \<times> world" where
  "parse_library_list_output text_output w =
     parse_lines (split_all CHR 0x0A (strip text_output)) [] w"

section \<open>Pipeline Orchestrator\<close>

text \<open>
  The stages of \<open>process_book\<close> before the verification: validation, download, location
  of the artifact, credentials, decryption. They give the artifact and the decrypted
  file, or the end of the run.
\<close>

definition acquire ::
  "env \<Rightarrow> string \<Rightarrow> path \<Rightarrow> string option \<Rightarrow> world \<Rightarrow> (outcome + path \<times> path) \<times> world" where
  "acquire e asin output_dir profile w =
     (if \<not> validate_asin asin then (Inl (SysExit 1), echo (InvalidAsin asin) w)
      else case mkdir e output_dir (files w) of
        Inl x \<Rightarrow> (Inl (Uncaught x), w)
      | Inr f \<Rightarrow>
     (case download_audiobook e asin output_dir profile (echo (Downloading asin) (w\<lparr>files := f\<rparr>)) of
        (Inl x, w1) \<Rightarrow> (Inl (Uncaught x), w1)
      | (Inr (success, error), w1) \<Rightarrow>
          if \<not> success
          then (Inl (SysExit 1), echo (ErrorDownload (case error of None \<Rightarrow> [] | Some s \<Rightarrow> s)) w1)
          else
     (case find_aaxc_file e (files w1) output_dir of
        None \<Rightarrow> (Inl (SysExit 1), echo NoAaxcFound w1)
      | Some aaxc_file \<Rightarrow>
     (let w2 = echo (FoundAaxc (path_name aaxc_file)) w1 in
      case (case with_suffix aaxc_file ''.voucher'' of
              Inl x \<Rightarrow> Inl x
            | Inr voucher \<Rightarrow> get_aaxc_credentials e (files w2) voucher) of
        Inl x \<Rightarrow> (Inl (SysExit 1), echo (ErrorExn x) w2)
      | Inr credentials \<Rightarrow>
     (case decrypt_audiobook e aaxc_file output_dir credentials
             (echo Decrypting (echo CredentialsExtracted w2)) of
        (Inl x, w3) \<Rightarrow> (Inl (Uncaught x), w3)
      | (Inr (success, output_file), w3) \<Rightarrow>
          (case output_file of
             None \<Rightarrow> (Inl (SysExit 1), echo DecryptFailed w3)
           | Some out \<Rightarrow>
               if \<not> success then (Inl (SysExit 1), echo DecryptFailed w3)
               else (Inr (aaxc_file, out), w3)))))))"

text \<open>The verification of the decrypted file and what follows it.\<close>

definition finish ::
  "env \<Rightarrow> bool \<Rightarrow> path \<Rightarrow> path \<Rightarrow> world \<Rightarrow> outcome \<times> world" where
  "finish e keep_files aaxc_file output_file w =
     (case verify_decrypted_file e output_file (echo Verifying w) of
        (False, w1) \<Rightarrow>
          (let w2 = echo VerificationFailed w1 in
           if exists_in (files w2) output_file
           then (case unlink output_file (files w2) of
                   Inl x \<Rightarrow> (Uncaught x, w2)
                 | Inr f \<Rightarrow> (SysExit 1, w2\<lparr>files := f\<rparr>))
           else (SysExit 1, w2))
      | (True, w1) \<Rightarrow>
          (case (if \<not> keep_files
                 then (case get_related_files e aaxc_file w1 of
                         (Inl x, w2) \<Rightarrow> (Some x, w2)
                       | (Inr related, w2) \<Rightarrow> (None, cleanup_files related w2))
                 else (None, echo KeepingFiles w1)) of
             (Some x, w2) \<Rightarrow> (Uncaught x, w2)
           | (None, w2) \<Rightarrow>
               (let w3 = echo (DecryptedAudiobook (path_name output_file)) (echo Completed w2)
                in (Finished,
                    case files w3 output_file of
                      None \<Rightarrow> w3
                    | Some ent \<Rightarrow> echo (FileSize (st_size ent)) w3))))"

definition process_book ::
  "env \<Rightarrow> string \<Rightarrow> path \<Rightarrow> bool \<Rightarrow> string option \<Rightarrow> world \<Rightarrow> outcome \<times> world" where
  "process_book e asin output_dir keep_files profile w =
     (case acquire e asin output_dir profile w of
        (Inl oc, w1) \<Rightarrow> (oc, w1)
      | (Inr (aaxc_file, output_file), w1) \<Rightarrow> finish e keep_files aaxc_file output_file w1)"

section \<open>Catalog Browser\<close>

text \<open>
  \<open>click.confirm\<close> reads lines until one is an answer: \<open>y\<close> or \<open>yes\<close>, \<open>n\<close> or \<open>no\<close>,
  or the empty line for the default; the end of the input aborts. \<open>click.prompt\<close> with
  the default \<open>""\<close> returns the line typed.
\<close>

fun confirm_lines ::
  "msg \<Rightarrow> bool \<Rightarrow> string list \<Rightarrow> event list \<Rightarrow> (exn + bool) \<times> event list \<times> string list" where
  "confirm_lines prompt dflt [] tr = (Inl Abort, tr @ [Echo prompt], [])"
| "confirm_lines prompt dflt (l # ls) tr =
     (let v = strip (lower l); tr1 = tr @ [Echo prompt]
      in if v = ''y'' \<or> v = ''yes'' then (Inr True, tr1, ls)
         else if v = ''n'' \<or> v = ''no'' then (Inr False, tr1, ls)
         else if v = [] then (Inr dflt, tr1, ls)
         else confirm_lines prompt dflt ls (tr1 @ [Echo ConfirmInvalid]))"

definition click_confirm :: "msg \<Rightarrow> bool \<Rightarrow> world \<Rightarrow> (exn + bool) \<times> world" where
  "click_confirm prompt dflt w =
     (case confirm_lines prompt dflt (stdin w) (trace w) of
        (r, tr, ls) \<Rightarrow> (r, w\<lparr>trace := tr, stdin := ls\<rparr>))"

definition click_prompt :: "msg \<Rightarrow> world \<Rightarrow> (exn + string) \<times> world" where
  "click_prompt prompt w =
     (case stdin w of
        [] \<Rightarrow> (Inl Abort, echo prompt w)
      | l # ls \<Rightarrow> (Inr l, (echo prompt w)\<lparr>stdin := ls\<rparr>))"

text \<open>
  The sort toggle of \<open>browse_and_download_mode\<close>: \<open>confirmed\<close> is the operator's answer
  to \<open>click.confirm\<close>.
\<close>

definition toggle_sort :: "string \<Rightarrow> bool \<Rightarrow> book list \<Rightarrow> world \<Rightarrow> book list \<times> world" where
  "toggle_sort sort_order confirmed library_data w =
     (if confirmed
      then (if sort_order = ''newest_first'' then rev library_data else library_data, w)
      else (let current_sort =
                  (if sort_order = ''newest_first'' then ''oldest_first'' else ''newest_first'')
            in (if current_sort = ''newest_first'' then rev library_data else library_data,
                echo (SortingBy (replace_underscore current_sort)) w)))"

text \<open>\<open>xs[start:stop]\<close> on integers: a negative index counts from the end, and both are clamped.\<close>

definition slice_bound :: "int \<Rightarrow> nat \<Rightarrow> nat" where
  "slice_bound i n = (if i < 0 then nat (i + int n) else min (nat i) n)"

definition py_slice :: "'a list \<Rightarrow> int \<Rightarrow> int \<Rightarrow> 'a list" where
  "py_slice xs start stop =
     (let a = slice_bound start (length xs); b = slice_bound stop (length xs)
      in take (b - a) (drop a xs))"

fun join_comma :: "string list \<Rightarrow> string" where
  "join_comma [] = []"
| "join_comma [a] = a"
| "join_comma (a # as) = a @ '', '' @ join_comma as"

text \<open>The rows of the table: \<open>enumerate(page_data, start=start_index)\<close>, numbered \<open>i + 1\<close>.\<close>

fun table_rows :: "int \<Rightarrow> book list \<Rightarrow> row list" where
  "table_rows i [] = []"
| "table_rows i (item # rest) =
     \<lparr>row_number = i + 1, row_title = book_title item,
      row_authors = join_comma (book_authors item), row_asin = book_asin item\<rparr>
     # table_rows (i + 1) rest"

text \<open>
  One turn of the \<open>while True\<close> loop of the browser, from the page index: it continues
  with a page index, or the browser ends.
\<close>

datatype step = Continue int world | Stop outcome world

definition browse_step ::
  "env \<Rightarrow> path \<Rightarrow> bool \<Rightarrow> string option \<Rightarrow> book list \<Rightarrow> int \<Rightarrow> int \<Rightarrow> world \<Rightarrow> step" where
  "browse_step e output_dir keep_files profile library_data page_size page_num w =
     (let start_index = page_num * page_size;
          end_index = start_index + page_size;
          page_data = py_slice library_data start_index end_index
      in if page_data = [] then Continue (page_num - 1) (echo NoMoreBooks w)
         else if page_size = 0 then Stop (Uncaught ZeroDivisionError) w
         else
     (case click_prompt BrowsePrompt
             (echo (ShowTable (page_num + 1) (- ((- int (length library_data)) div page_size))
                      (table_rows start_index page_data)) w) of
        (Inl x, w1) \<Rightarrow> Stop (Uncaught x) w1
      | (Inr line, w1) \<Rightarrow>
     (let user_input = lower line
      in if isdigit user_input then
           (if \<not> list_all is_decimal_char user_input then Stop (Uncaught ValueError) w1
            else (let choice = decimal_value 0 user_input
                  in if 1 \<le> choice \<and> choice \<le> int (length library_data)
                     then (let b = library_data ! nat (choice - 1)
                           in case process_book e (book_asin b) output_dir keep_files profile
                                     (echo (Selected (book_title b) (book_asin b)) w1) of
                                (oc, w2) \<Rightarrow> Stop oc w2)
                     else Continue page_num (echo InvalidBookNumber w1)))
         else if user_input = ''n'' then
           (if end_index < int (length library_data) then Continue (page_num + 1) w1
            else Continue page_num (echo AlreadyLastPage w1))
         else if user_input = ''p'' then
           (if page_num > 0 then Continue (page_num - 1) w1
            else Continue page_num (echo AlreadyFirstPage w1))
         else if user_input = ''q'' then Stop Finished (echo Exiting w1)
         else Continue page_num (echo InvalidInput w1))))"

text \<open>The loop: it may run forever, and then has no result.\<close>

partial_function (option) browse_loop ::
  "env \<Rightarrow> path \<Rightarrow> bool \<Rightarrow> string option \<Rightarrow> book list \<Rightarrow> int \<Rightarrow> int \<Rightarrow> world
   \<Rightarrow> (outcome \<times> world) option" where
  "browse_loop e output_dir keep_files profile library_data page_size page_num w =
     (case browse_step e output_dir keep_files profile library_data page_size page_num w of
        Continue p w1 \<Rightarrow> browse_loop e output_dir keep_files profile library_data page_size p w1
      | Stop oc w1 \<Rightarrow> Some (oc, w1))"

text \<open>
  The configuration: the default sort order and the page size, each absent or set
  (\<open>fallback\<close> gives \<open>newest_first\<close> and 10 when absent).
\<close>

record config =
  cfg_default_sort :: "string option"
  cfg_page_size :: "int option"

definition browse_and_download_mode ::
  "env \<Rightarrow> path \<Rightarrow> bool \<Rightarrow> string option \<Rightarrow> config \<Rightarrow> world \<Rightarrow> (outcome \<times> world) option" where
  "browse_and_download_mode e output_dir keep_files profile cfg w =
     (if \<not> rich_installed e then Some (SysExit 1, echo RichMissing w)
      else case run_command e ([''audible''] @ profile_args profile @ [''library'', ''list''])
                  (echo Fetching w) of
        (Inl (CalledProcessError rc err), w1) \<Rightarrow> Some (SysExit 1, echo (ListFailed err) w1)
      | (Inl x, w1) \<Rightarrow> Some (Uncaught x, w1)
      | (Inr (out, err), w1) \<Rightarrow>
     (case parse_library_list_output out w1 of (library_data, w2) \<Rightarrow>
      if library_data = [] then Some (SysExit 1, echo NoBooks w2)
      else
     (let sort_order = (case cfg_default_sort cfg of None \<Rightarrow> ''newest_first'' | Some s \<Rightarrow> s)
      in case click_confirm (ConfirmSort (replace_underscore sort_order)) True w2 of
           (Inl x, w3) \<Rightarrow> Some (Uncaught x, w3)
         | (Inr confirmed, w3) \<Rightarrow>
             (case toggle_sort sort_order confirmed library_data w3 of
                (sorted_data, w4) \<Rightarrow>
                  browse_loop e output_dir keep_files profile sorted_data
                    (case cfg_page_size cfg of None \<Rightarrow> 10 | Some n \<Rightarrow> n) 0 w4))))"

section \<open>The vocabulary of the specification\<close>






text \<open>The voucher of the specification's example.\<close>

definition example_voucher :: json where
  "example_voucher =
     JObj [(''content_license'',
            JObj [(''license_response'',
                   JObj [(''key'', JStr ''AB12''), (''iv'', JStr ''CD34'')])])]"

text \<open>
  The first occurrence of a license marker in a stem: the least position where one of the
  two marker prefixes starts.
\<close>

definition marker_here :: "string \<Rightarrow> bool" where
  "marker_here s = (startswith s ''-AAX'' \<or> startswith s ''-LC'')"

fun first_marker :: "string \<Rightarrow> nat option" where
  "first_marker [] = None"
| "first_marker (c # cs) =
     (if marker_here (c # cs) then Some 0
      else (case first_marker cs of None \<Rightarrow> None | Some i \<Rightarrow> Some (Suc i)))"

text \<open>
  The page indices the browser can reach: it starts at 0, and a turn of the loop that
  continues, whatever the operator has typed, leads from one index to the next.
\<close>

inductive reachable ::
  "env \<Rightarrow> path \<Rightarrow> bool \<Rightarrow> string option \<Rightarrow> book list \<Rightarrow> int \<Rightarrow> int \<Rightarrow> bool"
  for e output_dir keep_files profile library_data page_size where
  start: "reachable e output_dir keep_files profile library_data page_size 0"
| turn: "reachable e output_dir keep_files profile library_data page_size p \<Longrightarrow>
         browse_step e output_dir keep_files profile library_data page_size p w = Continue p' w'
         \<Longrightarrow> reachable e output_dir keep_files profile library_data page_size p'"

text \<open>The row the table shows for an entry under a number.\<close>

definition row_of :: "int \<Rightarrow> book \<Rightarrow> row" where
  "row_of n b = \<lparr>row_number = n, row_title = book_title b,
                 row_authors = join_comma (book_authors b), row_asin = book_asin b\<rparr>"

text \<open>
  The table of a page, and the world once the page has been shown and the operator's line
  has been read.
\<close>

definition page_table :: "book list \<Rightarrow> int \<Rightarrow> int \<Rightarrow> msg" where
  "page_table library_data page_size page_num =
     ShowTable (page_num + 1) (- ((- int (length library_data)) div page_size))
       (table_rows (page_num * page_size)
          (py_slice library_data (page_num * page_size) (page_num * page_size + page_size)))"

definition prompted :: "book list \<Rightarrow> int \<Rightarrow> int \<Rightarrow> world \<Rightarrow> world" where
  "prompted library_data page_size page_num w =
     (echo BrowsePrompt (echo (page_table library_data page_size page_num) w))
       \<lparr>stdin := tl (stdin w)\<rparr>"

text \<open>
  The page index is in range: not negative, and its page starts inside the listing.
\<close>

definition page_inv :: "book list \<Rightarrow> int \<Rightarrow> int \<Rightarrow> bool" where
  "page_inv library_data page_size p = (0 \<le> p \<and> p * page_size < int (length library_data))"

section \<open>A sample environment\<close>

text \<open>
  A directory \<open>out\<close> with an artifact \<open>book-AAX.aaxc\<close> and its voucher, a download
  client that succeeds, a transcoder that decrypts to a file of 90 bytes, and a
  validation run that exits with the code \<open>vrc\<close>.
\<close>

definition sample_files :: fs where
  "sample_files =
     [[''out'', ''book-AAX.aaxc''] \<mapsto> \<lparr>st_size = 100, read_text = Inl OSError\<rparr>,
      [''out'', ''book-AAX.voucher''] \<mapsto> \<lparr>st_size = 80, read_text = Inr ''voucher''\<rparr>]"

definition sample_run :: "int \<Rightarrow> string list \<Rightarrow> fs \<Rightarrow> proc_result \<times> fs" where
  "sample_run vrc cmd f =
     (if take 1 cmd = [''audible''] then (Exited 0 [] [], f)
      else if ''-audible_key'' \<in> set cmd
      then (Exited 0 [] [],
            f([''out'', ''book-AAX.m4b''] \<mapsto> \<lparr>st_size = 90, read_text = Inl OSError\<rparr>))
      else (Exited vrc [] [], f))"

definition sample_env :: "int \<Rightarrow> env" where
  "sample_env vrc =
     \<lparr>run = sample_run vrc,
      json_loads = (\<lambda>t. Inr example_voucher),
      glob = (\<lambda>f d pat. if pat = ''*.aaxc'' then [[''out'', ''book-AAX.aaxc'']] else []),
      mkdir = (\<lambda>p f. Inr f),
      rich_installed = True\<rparr>"

definition sample_world :: world where
  "sample_world = \<lparr>files = sample_files, trace = [], stdin = []\<rparr>"

text \<open>A library of three entries, and a stem with a line feed after the marker.\<close>

definition sample_library :: "book list" where
  "sample_library =
     [\<lparr>book_asin = ''B000000001'', book_title = ''One'', book_authors = [''Ann'']\<rparr>,
      \<lparr>book_asin = ''B000000002'', book_title = ''Two'', book_authors = [''Bob'']\<rparr>,
      \<lparr>book_asin = ''B000000003'', book_title = ''Three'', book_authors = [''Cyd'']\<rparr>]"

definition line_feed_stem :: string where
  "line_feed_stem = ''a-AAX'' @ [CHR 0x0A] @ ''b''"

section \<open>Properties of the strings and paths\<close>

lemma startswith_B: "startswith s ''B'' = (\<exists>cs. s = CHR ''B'' # cs)"
  by (cases s) auto



lemma rfind_less: "rfind s c = Some i \<Longrightarrow> i < length s"
  by (induction s arbitrary: i) (auto split: option.splits if_splits)

lemma path_name_snoc: "path_name (d @ [n]) = n"
  by (simp add: path_name_def)

text \<open>
  On a path with a name, \<open>with_suffix\<close> puts the new suffix after the stem; it raises
  \<open>ValueError\<close> on a path without a name.
\<close>

lemma with_suffix_stem:
  "path_name p \<noteq> [] \<Longrightarrow> suffix = ''.m4b'' \<or> suffix = ''.voucher'' \<Longrightarrow>
     with_suffix p suffix = Inr (butlast p @ [path_stem p @ suffix])"
  by (auto simp: with_suffix_def path_suffix_def path_stem_def Let_def
           dest: rfind_less split: option.splits)

lemma with_suffix_no_name: "path_name p = [] \<Longrightarrow> with_suffix p suffix = Inl ValueError"
  by (simp add: with_suffix_def)

lemmas sample_defs =
  sample_env_def sample_run_def sample_world_def sample_files_def example_voucher_def


section \<open>Identifier Validator: properties\<close>

text \<open>
  Claim C10. Every string of exactly 10 characters whose first character is \<open>B\<close> is
  accepted by \<open>validate_asin\<close>, whatever the other nine characters are (spaces and
  punctuation included); and two strings of the same length with the same first
  character get the same verdict.
\<close>

theorem validate_asin_accepts:
  "(length cs = 9 \<longrightarrow> validate_asin (CHR ''B'' # cs))
   \<and> validate_asin ''B !?:;,. -''
   \<and> (length s = length t \<and> take 1 s = take 1 t \<longrightarrow> validate_asin s = validate_asin t)"
proof (intro conjI impI)
  assume "length cs = 9"
  then show "validate_asin (CHR ''B'' # cs)" by (simp add: validate_asin_def)
next
  show "validate_asin ''B !?:;,. -''" by (simp add: validate_asin_def)
next
  assume h: "length s = length t \<and> take 1 s = take 1 t"
  show "validate_asin s = validate_asin t"
  proof (cases s)
    case Nil
    with h show ?thesis by (simp add: validate_asin_def)
  next
    case (Cons a as)
    with h obtain b bs where t: "t = b # bs" by (cases t) auto
    with h Cons have "a = b" "length as = length bs" by auto
    with Cons t show ?thesis by (simp add: validate_asin_def)
  qed
qed

theorem validate_asin_accepts_witness:
  "length ''0 2 4 6 8'' = 9 \<and> validate_asin (CHR ''B'' # ''0 2 4 6 8'')
   \<and> length ''B000000000'' = length ''B-&-&-&-&-''
   \<and> take 1 ''B000000000'' = take 1 ''B-&-&-&-&-''
   \<and> validate_asin ''B000000000'' = validate_asin ''B-&-&-&-&-''"
  using validate_asin_accepts [of "''0 2 4 6 8''" "''B000000000''" "''B-&-&-&-&-''"]
  by simp

text \<open>
  Claim C5. A string whose length is not 10, or whose first character is not \<open>B\<close>, is
  rejected by \<open>validate_asin\<close>, and \<open>process_book\<close> then ends the run with
  \<open>sys.exit(1)\<close> after the error message alone: the files are untouched and no external
  command has been launched.
\<close>

theorem invalid_asin_fails_fast:
  "length asin \<noteq> 10 \<or> \<not> (\<exists>cs. asin = CHR ''B'' # cs) \<Longrightarrow>
     \<not> validate_asin asin
     \<and> process_book e asin output_dir keep_files profile w
         = (SysExit 1, w\<lparr>trace := trace w @ [Echo (InvalidAsin asin)]\<rparr>)"
  by (auto simp: validate_asin_def startswith_B process_book_def acquire_def echo_def)

theorem invalid_asin_fails_fast_witness:
  "\<not> (\<exists>cs. ''A123456789'' = CHR ''B'' # cs)
   \<and> \<not> validate_asin ''A123456789''
   \<and> process_book (sample_env 0) ''A123456789'' [''out''] False None sample_world
       = (SysExit 1, sample_world\<lparr>trace := [Echo (InvalidAsin ''A123456789'')]\<rparr>)"
  using invalid_asin_fails_fast [of "''A123456789''" "sample_env 0" "[''out'']" False None
      sample_world]
  by (simp add: sample_world_def)

section \<open>Credential Extractor: properties\<close>




text \<open>
  A level of the voucher that is there without being an object is neither absent nor
  empty: \<open>get\<close> is then called on a value that has no such method.
\<close>

lemma voucher_level_not_object:
  assumes "f voucher_file = Some ent" "read_text ent = Inr txt"
    and "json_loads e txt = Inr (JObj [(''content_license'', JNull)])"
  shows "get_aaxc_credentials e f voucher_file = Inl AttributeError"
  using assms by (simp add: get_aaxc_credentials_def py_get_def)



section \<open>Decryption Invoker: properties\<close>

text \<open>
  Claim C1. For an artifact path (a path with a file name), \<open>decrypt_audiobook\<close> returns
  success with the output path exactly when the transcoder has exited with code zero, the
  output file exists and its size is greater than zero; in every other case it returns
  failure and no path. Here \<open>r\<close> is what the launch of the transcoder gave and \<open>w1\<close>
  the world after it.
\<close>

theorem decrypt_audiobook_success_iff:
  assumes "path_name input_file \<noteq> []"
    and "output_file = joinpath output_dir (path_stem input_file @ ''.m4b'')"
    and "subprocess_run e (ffmpeg_decrypt_cmd key iv input_file output_file) w = (r, w1)"
  shows "fst (decrypt_audiobook e input_file output_dir (key, iv) w) =
           (if (\<exists>out err. r = Exited 0 out err)
               \<and> exists_in (files w1) output_file
               \<and> (\<exists>ent. files w1 output_file = Some ent \<and> 0 < st_size ent)
            then Inr (True, Some output_file)
            else Inr (False, None))"
proof -
  have ws: "with_suffix input_file ''.m4b''
              = Inr (butlast input_file @ [path_stem input_file @ ''.m4b''])"
    using assms(1) by (simp add: with_suffix_stem)
  show ?thesis
    using assms(2,3)
    by (cases r)
       (auto simp: decrypt_audiobook_def ws path_name_snoc joinpath_def exists_in_def Let_def
             split: option.splits)
qed

theorem decrypt_audiobook_success_iff_witness:
  "path_name [''out'', ''book-AAX.aaxc''] \<noteq> []
   \<and> fst (decrypt_audiobook (sample_env 0) [''out'', ''book-AAX.aaxc''] [''out'']
            (JStr ''AB12'', JStr ''CD34'') sample_world)
       = Inr (True, Some [''out'', ''book-AAX.m4b''])
   \<and> fst (decrypt_audiobook (sample_env 0) [''out'', ''book-AAX.aaxc''] [''out'']
            (JInt 7, JStr ''CD34'') sample_world)
       = Inr (False, None)"
proof -
  let ?inp = "[''out'', ''book-AAX.aaxc'']"
  let ?out = "joinpath [''out''] (path_stem ?inp @ ''.m4b'')"
  let ?run = "\<lambda>key. subprocess_run (sample_env 0)
                 (ffmpeg_decrypt_cmd key (JStr ''CD34'') ?inp ?out) sample_world"
  have n: "path_name ?inp \<noteq> []" by (simp add: path_name_def)
  have r: "?run key = (fst (?run key), snd (?run key))" for key by simp
  have out: "?out = [''out'', ''book-AAX.m4b'']"
    by (simp add: joinpath_def path_stem_def path_name_def)
  have ok: "fst (?run (JStr ''AB12'')) = Exited 0 [] []"
       "files (snd (?run (JStr ''AB12''))) [''out'', ''book-AAX.m4b'']
          = Some \<lparr>st_size = 90, read_text = Inl OSError\<rparr>"
    by (simp_all add: out subprocess_run_def ffmpeg_decrypt_cmd_def sample_defs)
  have bad: "fst (?run (JInt 7)) = Raised TypeError"
    by (simp add: out subprocess_run_def ffmpeg_decrypt_cmd_def)
  show ?thesis
    using decrypt_audiobook_success_iff [OF n refl r [of "JStr ''AB12''"]]
          decrypt_audiobook_success_iff [OF n refl r [of "JInt 7"]]
          n ok bad
    by (simp add: out exists_in_def)
qed

section \<open>Pipeline Orchestrator: properties\<close>




section \<open>Listing parser: properties\<close>



section \<open>Sort toggle: properties\<close>

text \<open>
  Claim C8. For each of the two recognised sort orders and each answer of the operator,
  the listing is reversed once exactly when the effective order (the configured one when
  confirmed, the other one when declined) is \<open>newest_first\<close>, and left as it is
  otherwise; when the operator declines, the order announced is the new one.
\<close>

theorem toggle_sort_cases:
  "toggle_sort ''newest_first'' True library_data w = (rev library_data, w)
   \<and> toggle_sort ''oldest_first'' True library_data w = (library_data, w)
   \<and> toggle_sort ''newest_first'' False library_data w
       = (library_data, echo (SortingBy ''oldest first'') w)
   \<and> toggle_sort ''oldest_first'' False library_data w
       = (rev library_data, echo (SortingBy ''newest first'') w)"
  by (simp add: toggle_sort_def replace_underscore_def)

section \<open>Artifact Locator: properties\<close>

text \<open>
  The search of \<open>get_related_files\<close> and the first occurrence of a marker agree on the
  stems without a line feed, where the base name is the stem cut at that occurrence. On
  a stem with neither marker the base name is the whole stem, the warning is emitted
  once, and the function returns for a path with a file name.
\<close>

lemma startswith_prefix: "startswith s p = (\<exists>r. s = p @ r)"
  by (induction s p rule: startswith.induct) auto

lemma marker_at_here: "marker_at s \<Longrightarrow> marker_here s"
  by (auto simp: marker_at_def marker_here_def)

lemma rest_matches_no_lf: "CHR 0x0A \<notin> set s \<Longrightarrow> rest_matches (drop n s)"
  by (auto simp: rest_matches_def dest!: in_set_butlastD in_set_dropD)

lemma marker_here_at: "CHR 0x0A \<notin> set s \<Longrightarrow> marker_here s \<Longrightarrow> marker_at s"
  by (auto simp: marker_at_def marker_here_def rest_matches_no_lf)

lemma re_search_first_marker: "CHR 0x0A \<notin> set stem \<Longrightarrow> re_search stem = first_marker stem"
proof (induction stem)
  case Nil
  then show ?case by simp
next
  case (Cons c cs)
  then have "marker_at (c # cs) = marker_here (c # cs)"
    using marker_here_at [of "c # cs"] marker_at_here [of "c # cs"] by blast
  with Cons show ?case by simp
qed

lemma re_search_no_marker: "first_marker stem = None \<Longrightarrow> re_search stem = None"
proof (induction stem)
  case Nil
  then show ?case by simp
next
  case (Cons c cs)
  then show ?case
    using marker_at_here [of "c # cs"] by (auto split: if_splits option.splits)
qed

lemma first_marker_Some:
  "first_marker stem = Some i \<longleftrightarrow>
     i < length stem \<and> marker_here (drop i stem) \<and> (\<forall>j<i. \<not> marker_here (drop j stem))"
proof (induction stem arbitrary: i)
  case Nil
  then show ?case by simp
next
  case (Cons c cs)
  show ?case
  proof (cases "marker_here (c # cs)")
    case True
    then show ?thesis by (cases i) auto
  next
    case False
    show ?thesis
    proof (cases i)
      case 0
      with False show ?thesis by (auto split: option.splits)
    next
      case (Suc k)
      have "(\<forall>j<Suc k. \<not> marker_here (drop j (c # cs))) = (\<forall>j<k. \<not> marker_here (drop j cs))"
        using False by (auto simp: less_Suc_eq_0_disj)
      with Suc False Cons [of k] show ?thesis by (auto split: option.splits)
    qed
  qed
qed

lemma first_marker_None:
  "first_marker stem = None \<longleftrightarrow> (\<forall>j. \<not> marker_here (drop j stem))"
proof (induction stem)
  case Nil
  then show ?case by (simp add: marker_here_def)
next
  case (Cons c cs)
  have "(\<forall>j. \<not> marker_here (drop j (c # cs)))
          = (\<not> marker_here (c # cs) \<and> (\<forall>j. \<not> marker_here (drop j cs)))"
    by (metis drop0 drop_Suc_Cons not0_implies_Suc)
  with Cons show ?case by (auto split: option.splits)
qed

lemma base_name_truncates:
  "CHR 0x0A \<notin> set stem \<Longrightarrow> first_marker stem = Some i \<Longrightarrow> base_name stem = take i stem"
  by (simp add: base_name_def re_search_first_marker)

lemma base_name_fallback:
  assumes "first_marker (path_stem aaxc_file) = None"
  shows "base_name (path_stem aaxc_file) = path_stem aaxc_file"
    and "snd (get_related_files e aaxc_file w) = echo (BaseNameWarning (path_stem aaxc_file)) w"
    and "path_name aaxc_file \<noteq> [] \<Longrightarrow> \<exists>related. fst (get_related_files e aaxc_file w) = Inr related"
  using re_search_no_marker [OF assms]
  by (auto simp: base_name_def get_related_files_def Let_def with_suffix_stem split: sum.splits)

lemma lf_stem: "path_stem [''out'', line_feed_stem @ ''.aaxc''] = line_feed_stem"
  by (simp add: path_stem_def path_name_def line_feed_stem_def)

text \<open>
  Claim C4, at the stem made of \<open>a-AAX\<close>, a line feed and \<open>b\<close>: the first occurrence
  of a marker is at position 1, so that the stem cut there is \<open>a\<close>; yet the search of
  \<open>get_related_files\<close> finds no match, the base name is the whole stem and the warning
  is emitted.
\<close>

theorem base_name_line_feed:
  "first_marker line_feed_stem = Some 1
   \<and> take 1 line_feed_stem = ''a''
   \<and> base_name line_feed_stem = line_feed_stem
   \<and> snd (get_related_files e [''out'', line_feed_stem @ ''.aaxc''] w)
       = echo (BaseNameWarning line_feed_stem) w"
proof -
  have s: "re_search line_feed_stem = None"
    by (simp add: line_feed_stem_def marker_at_def rest_matches_def)
  have f: "first_marker line_feed_stem = Some 1"
    by (simp add: line_feed_stem_def marker_here_def)
  show ?thesis
    using s f by (simp add: base_name_def get_related_files_def lf_stem Let_def split: sum.splits)
       (simp add: line_feed_stem_def)
qed

section \<open>Catalog Browser: properties\<close>

lemma slice_nonempty:
  assumes "0 \<le> k" "k < int (length xs)" "0 < s"
  shows "py_slice xs k (k + s) \<noteq> []"
proof -
  have sa: "slice_bound k (length xs) = nat k"
    using assms by (simp add: slice_bound_def)
  have sb: "slice_bound (k + s) (length xs) = min (nat (k + s)) (length xs)"
    using assms by (simp add: slice_bound_def)
  have "nat k < nat (k + s)" "nat k < length xs"
    using assms by linarith+
  then have "nat k < min (nat (k + s)) (length xs)" by simp
  then show ?thesis
    using \<open>nat k < length xs\<close> by (simp add: py_slice_def sa sb Let_def del: min_less_iff_conj)
qed

lemma page_nonempty:
  assumes "0 < page_size" "page_inv library_data page_size p"
  shows "py_slice library_data (p * page_size) (p * page_size + page_size) \<noteq> []"
  using assms by (intro slice_nonempty) (auto simp: page_inv_def)

lemma browse_step_prompted:
  assumes "0 < page_size" "page_inv library_data page_size p" "stdin w = l # ls"
  shows "browse_step e output_dir keep_files profile library_data page_size p w =
     (let w1 = prompted library_data page_size p w; user_input = lower l
      in if isdigit user_input then
           (if \<not> list_all is_decimal_char user_input then Stop (Uncaught ValueError) w1
            else (let choice = decimal_value 0 user_input
                  in if 1 \<le> choice \<and> choice \<le> int (length library_data)
                     then (let b = library_data ! nat (choice - 1)
                           in case process_book e (book_asin b) output_dir keep_files profile
                                     (echo (Selected (book_title b) (book_asin b)) w1) of
                                (oc, w2) \<Rightarrow> Stop oc w2)
                     else Continue p (echo InvalidBookNumber w1)))
         else if user_input = ''n'' then
           (if p * page_size + page_size < int (length library_data) then Continue (p + 1) w1
            else Continue p (echo AlreadyLastPage w1))
         else if user_input = ''p'' then
           (if p > 0 then Continue (p - 1) w1
            else Continue p (echo AlreadyFirstPage w1))
         else if user_input = ''q'' then Stop Finished (echo Exiting w1)
         else Continue p (echo InvalidInput w1))"
  using page_nonempty [OF assms(1,2)] assms(1,3)
  by (simp add: browse_step_def click_prompt_def prompted_def page_table_def echo_def Let_def)

lemma browse_step_eof:
  assumes "0 < page_size" "page_inv library_data page_size p" "stdin w = []"
  shows "\<exists>w1. browse_step e output_dir keep_files profile library_data page_size p w = Stop (Uncaught Abort) w1"
  using page_nonempty [OF assms(1,2)] assms(1,3)
  by (simp add: browse_step_def click_prompt_def echo_def Let_def)

lemma step_inv:
  assumes "0 < page_size" "page_inv library_data page_size p"
    and "browse_step e output_dir keep_files profile library_data page_size p w = Continue p' w'"
  shows "page_inv library_data page_size p'"
proof (cases "stdin w")
  case Nil
  with browse_step_eof [OF assms(1,2), of w e output_dir keep_files profile] assms(3)
  show ?thesis by auto
next
  case (Cons l ls)
  have m: "(p - 1) * page_size < p * page_size" "(p + 1) * page_size = p * page_size + page_size"
    using assms(1) by (simp_all add: algebra_simps)
  from assms(3) show ?thesis
    unfolding browse_step_prompted [OF assms(1,2) Cons]
    using assms(2) m
    by (auto simp: Let_def page_inv_def split: if_splits prod.splits)
qed

lemma reachable_inv:
  assumes "0 < page_size" "library_data \<noteq> []"
    and "reachable e output_dir keep_files profile library_data page_size p"
  shows "page_inv library_data page_size p"
  using assms(3)
proof (induction rule: reachable.induct)
  case start
  from assms(2) show ?case by (simp add: page_inv_def)
next
  case (turn p w p' w')
  then show ?case using step_inv [OF assms(1)] by blast
qed

lemma page_inv_ceiling:
  assumes "0 < page_size"
  shows "page_inv library_data page_size p \<longleftrightarrow>
           0 \<le> p \<and> p \<le> \<lceil>real (length library_data) / real_of_int page_size\<rceil> - 1"
proof -
  let ?n = "length library_data"
  have "real_of_int p < real ?n / real_of_int page_size
          \<longleftrightarrow> real_of_int p * real_of_int page_size < real ?n"
    using assms by (simp add: pos_less_divide_eq)
  also have "\<dots> \<longleftrightarrow> real_of_int (p * page_size) < real_of_int (int ?n)"
    by simp
  also have "\<dots> \<longleftrightarrow> p * page_size < int ?n"
    by (rule of_int_less_iff)
  finally have a: "p * page_size < int ?n
          \<longleftrightarrow> real_of_int p < real ?n / real_of_int page_size" by simp
  have b: "real_of_int p < real ?n / real_of_int page_size
          \<longleftrightarrow> p < \<lceil>real ?n / real_of_int page_size\<rceil>"
    by (simp add: less_ceiling_iff)
  show ?thesis unfolding page_inv_def a b by auto
qed

lemma pages_total:
  "- ((- int (length library_data)) div page_size)
     = \<lceil>real (length library_data) / real_of_int page_size\<rceil>"
proof -
  have "\<lceil>real_of_int (int (length library_data)) / real_of_int page_size\<rceil>
          = - ((- int (length library_data)) div page_size)"
    by (rule ceiling_divide_eq_div)
  then show ?thesis by simp
qed

lemma last_page_end:
  assumes "0 < page_size" "p = \<lceil>real (length library_data) / real_of_int page_size\<rceil> - 1"
  shows "\<not> p * page_size + page_size < int (length library_data)"
proof -
  have "real (length library_data) / real_of_int page_size \<le> real_of_int (p + 1)"
    using assms(2) by (simp add: le_of_int_ceiling)
  then have "real (length library_data) \<le> real_of_int (p + 1) * real_of_int page_size"
    using assms(1) by (simp add: pos_divide_le_eq)
  then have "int (length library_data) \<le> (p + 1) * page_size"
    by (metis of_int_le_iff of_int_mult of_int_of_nat_eq)
  then show ?thesis by (simp add: algebra_simps)
qed

lemma table_rows_map:
  "table_rows i xs = map (\<lambda>k. row_of (i + int k + 1) (xs ! k)) [0..<length xs]"
proof (induction xs arbitrary: i)
  case Nil
  then show ?case by simp
next
  case (Cons x xs)
  have "[0..<Suc (length xs)] = 0 # [Suc 0..<Suc (length xs)]"
    by (rule upt_conv_Cons) simp
  then have e: "[0..<Suc (length xs)] = 0 # map Suc [0..<length xs]"
    by (simp only: map_Suc_upt)
  show ?case
    unfolding length_Cons e
    by (simp add: Cons row_of_def o_def algebra_simps del: upt_Suc)
qed

lemma page_25:
  assumes "length library_data = 25"
  shows "page_table library_data 10 0
           = ShowTable 1 3 (map (\<lambda>i. row_of (int i + 1) (library_data ! i)) [0..<10])"
    and "page_table library_data 10 2
           = ShowTable 3 3 (map (\<lambda>i. row_of (int i + 1) (library_data ! i)) [20..<25])"
proof -
  have s0: "py_slice library_data 0 10 = take 10 library_data"
    using assms by (simp add: py_slice_def slice_bound_def)
  have s2: "py_slice library_data 20 30 = drop 20 library_data"
    using assms by (simp add: py_slice_def slice_bound_def)
  have u: "[20..<25] = map (\<lambda>k. k + 20) [0..<5]"
    by (simp add: map_add_upt)
  show "page_table library_data 10 0
           = ShowTable 1 3 (map (\<lambda>i. row_of (int i + 1) (library_data ! i)) [0..<10])"
    using assms by (simp add: page_table_def s0 table_rows_map)
  show "page_table library_data 10 2
           = ShowTable 3 3 (map (\<lambda>i. row_of (int i + 1) (library_data ! i)) [20..<25])"
    unfolding u using assms
    by (simp add: page_table_def s2 table_rows_map o_def add.commute)
qed

lemma sample_reach:
  "reachable (sample_env 0) [''out''] False None sample_library 2 1"
proof -
  have inv: "page_inv sample_library 2 0"
    by (simp add: page_inv_def sample_library_def)
  have "browse_step (sample_env 0) [''out''] False None sample_library 2 0
          (sample_world\<lparr>stdin := [''n'']\<rparr>)
        = Continue 1 (prompted sample_library 2 0 (sample_world\<lparr>stdin := [''n'']\<rparr>))"
    by (subst browse_step_prompted [OF _ inv, of _ "''n''" "[]"])
       (simp_all add: lower_def py_lower_char_def isdigit_def is_digit_char_def sample_library_def)
  with reachable.start show ?thesis by (rule reachable.turn)
qed



text \<open>
  Claim C6. With a positive page size and a listing that is not empty (the browser ends
  the run on an empty one), every page index the loop reaches lies between 0 and
  \<open>ceil(total / page_size) - 1\<close>; \<open>n\<close> on the last page and \<open>p\<close> on page 0 leave
  the index as it is and print the notice after the table and the prompt; and on a listing
  of 25 entries with pages of 10, the table of page 0 has the rows 1 to 10 with the
  entries 1 to 10, and the table of page 2 the rows 21 to 25 with the entries 21 to 25.
\<close>

theorem browser_page_index:
  assumes "0 < page_size" "library_data \<noteq> []"
  shows "(reachable e output_dir keep_files profile library_data page_size p \<longrightarrow>
            0 \<le> p \<and> p \<le> \<lceil>real (length library_data) / real_of_int page_size\<rceil> - 1)
     \<and> (p = \<lceil>real (length library_data) / real_of_int page_size\<rceil> - 1
          \<and> stdin w = l # ls \<and> lower l = ''n'' \<longrightarrow>
            browse_step e output_dir keep_files profile library_data page_size p w
              = Continue p (echo AlreadyLastPage (prompted library_data page_size p w)))
     \<and> (stdin w = l # ls \<and> lower l = ''p'' \<longrightarrow>
            browse_step e output_dir keep_files profile library_data page_size 0 w
              = Continue 0 (echo AlreadyFirstPage (prompted library_data page_size 0 w)))
     \<and> (length books = 25 \<longrightarrow>
            page_table books 10 0
              = ShowTable 1 3 (map (\<lambda>i. row_of (int i + 1) (books ! i)) [0..<10])
          \<and> page_table books 10 2
              = ShowTable 3 3 (map (\<lambda>i. row_of (int i + 1) (books ! i)) [20..<25]))"
proof (intro conjI impI)
  assume "reachable e output_dir keep_files profile library_data page_size p"
  then have "page_inv library_data page_size p"
    using assms by (rule reachable_inv [rotated 2])
  then show "0 \<le> p" "p \<le> \<lceil>real (length library_data) / real_of_int page_size\<rceil> - 1"
    using page_inv_ceiling [OF assms(1)] by blast+
next
  assume h: "p = \<lceil>real (length library_data) / real_of_int page_size\<rceil> - 1
          \<and> stdin w = l # ls \<and> lower l = ''n''"
  have "0 < real (length library_data) / real_of_int page_size"
    using assms by simp
  then have "0 < \<lceil>real (length library_data) / real_of_int page_size\<rceil>"
    by (simp add: ceiling_less_iff flip: not_le) 
  with h have inv: "page_inv library_data page_size p"
    using page_inv_ceiling [OF assms(1), of library_data p] by simp
  have e: "\<not> p * page_size + page_size < int (length library_data)"
    using last_page_end [OF assms(1)] h by blast
  from h have "stdin w = l # ls" "lower l = ''n''" by blast+
  with e show "browse_step e output_dir keep_files profile library_data page_size p w
              = Continue p (echo AlreadyLastPage (prompted library_data page_size p w))"
    by (simp add: browse_step_prompted [OF assms(1) inv] isdigit_def is_digit_char_def)
next
  assume h: "stdin w = l # ls \<and> lower l = ''p''"
  have inv: "page_inv library_data page_size 0"
    using assms(2) by (simp add: page_inv_def)
  from h have "stdin w = l # ls" "lower l = ''p''" by blast+
  then show "browse_step e output_dir keep_files profile library_data page_size 0 w
              = Continue 0 (echo AlreadyFirstPage (prompted library_data page_size 0 w))"
    by (simp add: browse_step_prompted [OF assms(1) inv] isdigit_def is_digit_char_def)
next
  assume "length books = 25"
  then show "page_table books 10 0
              = ShowTable 1 3 (map (\<lambda>i. row_of (int i + 1) (books ! i)) [0..<10])"
    and "page_table books 10 2
              = ShowTable 3 3 (map (\<lambda>i. row_of (int i + 1) (books ! i)) [20..<25])"
    by (rule page_25)+
qed

theorem browser_page_index_witness:
  "(0::int) < 2 \<and> sample_library \<noteq> []
   \<and> reachable (sample_env 0) [''out''] False None sample_library 2 1
   \<and> (0::int) \<le> 1 \<and> 1 \<le> \<lceil>real (length sample_library) / real_of_int 2\<rceil> - 1
   \<and> browse_step (sample_env 0) [''out''] False None sample_library 2 1
         (sample_world\<lparr>stdin := [''n'']\<rparr>)
       = Continue 1 (echo AlreadyLastPage
           (prompted sample_library 2 1 (sample_world\<lparr>stdin := [''n'']\<rparr>)))
   \<and> browse_step (sample_env 0) [''out''] False None sample_library 2 0
         (sample_world\<lparr>stdin := [''p'']\<rparr>)
       = Continue 0 (echo AlreadyFirstPage
           (prompted sample_library 2 0 (sample_world\<lparr>stdin := [''p'']\<rparr>)))
   \<and> length (replicate 25 (hd sample_library)) = 25
   \<and> page_table (replicate 25 (hd sample_library)) 10 2
       = ShowTable 3 3
           (map (\<lambda>i. row_of (int i + 1) (replicate 25 (hd sample_library) ! i)) [20..<25])"
proof -
  have ps: "(0::int) < 2" by simp
  have ne: "sample_library \<noteq> []" by (simp add: sample_library_def)
  have c: "\<lceil>real (length sample_library) / real_of_int 2\<rceil> - 1 = 1"
    by (simp add: sample_library_def)
  have lo: "lower ''n'' = ''n''" "lower ''p'' = ''p''"
    by (simp_all add: lower_def py_lower_char_def)
  note t = browser_page_index [OF ps ne, of "sample_env 0" "[''out'']" False None 1]
  show ?thesis
    using t [of "sample_world\<lparr>stdin := [''n'']\<rparr>" "''n''" "[]" "replicate 25 (hd sample_library)"]
          t [of "sample_world\<lparr>stdin := [''p'']\<rparr>" "''p''" "[]" "replicate 25 (hd sample_library)"]
          sample_reach ne c lo
    by simp
qed




end
